theory Spec2Isabelle
  imports Main "HOL-Library.AList"
begin

section \<open>Field-name canonicalisation (\<open>to_snake_case\<close>)\<close>

text \<open>
  Python strings are modelled as \<^typ>\<open>string\<close> with one \<^typ>\<open>char\<close> per code point, so the
  model covers the strings over the code points U+0000 .. U+00FF. The character classes
  \<open>[a-z]\<close> and \<open>[A-Z]\<close> of the pattern are the ASCII ranges; \<open>str.lower\<close> maps the ASCII
  capitals and the Latin-1 capitals U+00C0 .. U+00DE (without the multiplication sign U+00D7)
  to the code point 32 above and leaves every other code point of the range alone.
\<close>

definition is_az :: "char \<Rightarrow> bool" where
  "is_az c = (97 \<le> (of_char c :: nat) \<and> (of_char c :: nat) \<le> 122)"

definition is_AZ :: "char \<Rightarrow> bool" where
  "is_AZ c = (65 \<le> (of_char c :: nat) \<and> (of_char c :: nat) \<le> 90)"

definition lower_char :: "char \<Rightarrow> char" where
  "lower_char c =
     (let n = (of_char c :: nat)
      in if (65 \<le> n \<and> n \<le> 90) \<or> (192 \<le> n \<and> n \<le> 222 \<and> n \<noteq> 215)
         then char_of (n + 32) else c)"

definition lower :: "string \<Rightarrow> string" where
  "lower s = map lower_char s"

text \<open>
  \<open>snake_case_pattern\<close> is \<open>(?<=[a-z])(?=[A-Z])|(?<=[A-Z])(?=[A-Z][a-z])\<close>: it matches the
  empty string only, at a position whose left neighbour is \<open>p\<close> and whose right context is
  \<open>c # cs\<close>. \<open>snake_case_pattern.sub("_", data)\<close> puts an underscore at every such position;
  the look-arounds read the subject string, never the output.
\<close>

definition snake_case_pattern :: "char option \<Rightarrow> string \<Rightarrow> bool" where
  "snake_case_pattern p s =
     (case p of
        None \<Rightarrow> False
      | Some q \<Rightarrow>
          (case s of
             [] \<Rightarrow> False
           | c # cs \<Rightarrow>
               (is_az q \<and> is_AZ c)
               \<or> (is_AZ q \<and> is_AZ c \<and> (case cs of [] \<Rightarrow> False | d # _ \<Rightarrow> is_az d))))"

fun pattern_sub :: "char option \<Rightarrow> string \<Rightarrow> string" where
  "pattern_sub p [] = []"
| "pattern_sub p (c # cs) =
     (if snake_case_pattern p (c # cs) then CHR ''_'' # c # pattern_sub (Some c) cs
      else c # pattern_sub (Some c) cs)"

text \<open>
  \<open>str.replace("_i_ds", "_ids")\<close>: the occurrences are replaced from left to right and do
  not overlap; the scan goes on behind a replaced occurrence.
\<close>

function replace_i_ds :: "string \<Rightarrow> string" where
  "replace_i_ds [] = []"
| "replace_i_ds (c # cs) =
     (if take 5 (c # cs) = ''_i_ds'' then ''_ids'' @ replace_i_ds (drop 4 cs)
      else c # replace_i_ds cs)"
  by pat_completeness auto
termination
  by (relation "measure length") auto

definition to_snake_case :: "string \<Rightarrow> string" where
  "to_snake_case data = replace_i_ds (lower (pattern_sub None data))"


section \<open>Values, faults and the Python operations the code relies on\<close>

datatype SortingStyleEnum =
  MANUAL | DISPLAY_DATE_ASCENDING | DISPLAY_DATE_DESCENDING | TITLE_ASCENDING | TITLE_DESCENDING

text \<open>
  The values the code handles: the decoded JSON of the wire (\<open>None\<close>, booleans, integers,
  strings, lists, dicts with string keys in insertion order) and what unmarshalling adds
  (aware UTC datetimes, kept as microseconds since the epoch, members of
  \<open>SortingStyleEnum\<close>, tuples). JSON numbers with a fraction are outside the model.
\<close>

datatype pyval =
    PNone
  | PBool bool
  | PInt int
  | PStr string
  | PList "pyval list"
  | PDict "(string \<times> pyval) list"
  | PDatetime int
  | PEnum SortingStyleEnum
  | PTuple "pyval list"

type_synonym pydict = "(string \<times> pyval) list"

text \<open>
  Every \<open>raise\<close> of the source and every exception of a built-in operation is a value.
  \<open>KeyError\<close> carries the missing key (or the message the source gives it),
  \<open>PyiCloudAPIResponseException\<close> its reason.
\<close>

datatype error =
    KeyError pyval
  | ValueError
  | AssertionError
  | TypeError
  | AttributeError
  | OverflowError
  | OSError
  | PyiCloudAPIResponseException string
  | PyiCloudServiceNotActivatedException string

text \<open>A call of \<open>_LOGGER.warning\<close>, with the arguments of its format string.\<close>

datatype log =
    UnknownFieldType pyval string pyval
  | FailedToParseField string pyval pyval
  | NameMissingOrEmpty pyval
  | ComplexTypeNoHandling string pyval pyval
  | RefreshedLists nat

text \<open>
  \<open>json.loads\<close> and \<open>int\<close> applied to a string belong to the Python library, not to this
  program: they are parameters. \<open>None\<close> is \<open>json.JSONDecodeError\<close> for the first and
  \<open>ValueError\<close> for the second.
\<close>

record stdlib =
  json_loads :: "string \<Rightarrow> pyval option"
  int_of_str :: "string \<Rightarrow> int option"

definition enum_value :: "SortingStyleEnum \<Rightarrow> string" where
  "enum_value e =
     (case e of
        MANUAL \<Rightarrow> ''manual''
      | DISPLAY_DATE_ASCENDING \<Rightarrow> ''displayDate_asc''
      | DISPLAY_DATE_DESCENDING \<Rightarrow> ''displayDate_desc''
      | TITLE_ASCENDING \<Rightarrow> ''title_asc''
      | TITLE_DESCENDING \<Rightarrow> ''title_desc'')"

text \<open>\<open>SortingStyleEnum\<close> derives from \<open>str\<close>: a member is a string with its value.\<close>

definition as_str :: "pyval \<Rightarrow> string option" where
  "as_str v = (case v of PStr s \<Rightarrow> Some s | PEnum e \<Rightarrow> Some (enum_value e) | _ \<Rightarrow> None)"

text \<open>\<open>v == "..."\<close> for a string literal.\<close>

definition str_eq :: "pyval \<Rightarrow> string \<Rightarrow> bool" where
  "str_eq v s = (as_str v = Some s)"

text \<open>\<open>bool\<close> is a subclass of \<open>int\<close>.\<close>

definition as_int :: "pyval \<Rightarrow> int option" where
  "as_int v = (case v of PInt n \<Rightarrow> Some n | PBool b \<Rightarrow> Some (if b then 1 else 0) | _ \<Rightarrow> None)"

text \<open>\<open>v == 1\<close>.\<close>

definition eq_one :: "pyval \<Rightarrow> bool" where
  "eq_one v = (as_int v = Some 1)"

definition is_dict :: "pyval \<Rightarrow> bool" where
  "is_dict v = (case v of PDict _ \<Rightarrow> True | _ \<Rightarrow> False)"

text \<open>Truth value of an object (\<open>bool(v)\<close>, \<open>not v\<close>, \<open>if v\<close>).\<close>

definition truthy :: "pyval \<Rightarrow> bool" where
  "truthy v =
     (case v of
        PNone \<Rightarrow> False
      | PBool b \<Rightarrow> b
      | PInt n \<Rightarrow> n \<noteq> 0
      | PStr s \<Rightarrow> s \<noteq> []
      | PList xs \<Rightarrow> xs \<noteq> []
      | PDict d \<Rightarrow> d \<noteq> []
      | PDatetime _ \<Rightarrow> True
      | PEnum e \<Rightarrow> enum_value e \<noteq> []
      | PTuple xs \<Rightarrow> xs \<noteq> [])"

text \<open>\<open>d[k] = v\<close> on a dict: an existing key keeps its place, a new key goes to the end.\<close>

definition dict_set :: "pydict \<Rightarrow> string \<Rightarrow> pyval \<Rightarrow> pydict" where
  "dict_set d k v = AList.update k v d"

text \<open>\<open>d.get(k, default)\<close> on a dict.\<close>

definition dict_get :: "pydict \<Rightarrow> string \<Rightarrow> pyval \<Rightarrow> pyval" where
  "dict_get d k dflt = (case map_of d k of None \<Rightarrow> dflt | Some v \<Rightarrow> v)"

text \<open>\<open>k in d\<close> on a dict.\<close>

definition has_key :: "pydict \<Rightarrow> string \<Rightarrow> bool" where
  "has_key d k = (map_of d k \<noteq> None)"

text \<open>
  \<open>v[k]\<close> with a string key: a dict looks the key up, a string, list or tuple wants an
  integer index, anything else is not subscriptable.
\<close>

definition getitem :: "pyval \<Rightarrow> string \<Rightarrow> error + pyval" where
  "getitem v k =
     (case v of
        PDict d \<Rightarrow> (case map_of d k of None \<Rightarrow> Inl (KeyError (PStr k)) | Some x \<Rightarrow> Inr x)
      | _ \<Rightarrow> Inl TypeError)"

text \<open>\<open>v.get(k, default)\<close> and \<open>v.items()\<close>: only a dict has these methods.\<close>

definition get_method :: "pyval \<Rightarrow> string \<Rightarrow> pyval \<Rightarrow> error + pyval" where
  "get_method v k dflt = (case v of PDict d \<Rightarrow> Inr (dict_get d k dflt) | _ \<Rightarrow> Inl AttributeError)"

definition items :: "pyval \<Rightarrow> error + pydict" where
  "items v = (case v of PDict d \<Rightarrow> Inr d | _ \<Rightarrow> Inl AttributeError)"

text \<open>
  The elements a \<open>for\<close> loop or \<open>list.extend\<close> draws from a value: a string gives its
  characters, a dict its keys.
\<close>

definition py_iter :: "pyval \<Rightarrow> error + pyval list" where
  "py_iter v =
     (case v of
        PList xs \<Rightarrow> Inr xs
      | PTuple xs \<Rightarrow> Inr xs
      | PStr s \<Rightarrow> Inr (map (\<lambda>c. PStr [c]) s)
      | PEnum e \<Rightarrow> Inr (map (\<lambda>c. PStr [c]) (enum_value e))
      | PDict d \<Rightarrow> Inr (map (\<lambda>(k, _). PStr k) d)
      | _ \<Rightarrow> Inl TypeError)"

text \<open>\<open>int(v)\<close>.\<close>

definition py_int :: "stdlib \<Rightarrow> pyval \<Rightarrow> error + pyval" where
  "py_int L v =
     (case as_int v of
        Some n \<Rightarrow> Inr (PInt n)
      | None \<Rightarrow>
          (case as_str v of
             Some s \<Rightarrow> (case int_of_str L s of None \<Rightarrow> Inl ValueError | Some n \<Rightarrow> Inr (PInt n))
           | None \<Rightarrow> Inl TypeError))"

text \<open>A loop over a list whose body may raise: the first fault ends it.\<close>

fun foldM :: "('s \<Rightarrow> 'a \<Rightarrow> error + 's) \<Rightarrow> 'a list \<Rightarrow> 's \<Rightarrow> error + 's" where
  "foldM f [] s = Inr s"
| "foldM f (x # xs) s = (case f s x of Inl e \<Rightarrow> Inl e | Inr s' \<Rightarrow> foldM f xs s')"

fun mapM :: "('a \<Rightarrow> error + 'b) \<Rightarrow> 'a list \<Rightarrow> error + 'b list" where
  "mapM f [] = Inr []"
| "mapM f (x # xs) =
     (case f x of
        Inl e \<Rightarrow> Inl e
      | Inr y \<Rightarrow> (case mapM f xs of Inl e \<Rightarrow> Inl e | Inr ys \<Rightarrow> Inr (y # ys)))"

text \<open>One step after another: a fault of the first step is the fault of both.\<close>

definition bind :: "error + 'a \<Rightarrow> ('a \<Rightarrow> error + 'b) \<Rightarrow> error + 'b" where
  "bind m f = (case m of Inl e \<Rightarrow> Inl e | Inr x \<Rightarrow> f x)"

section \<open>Timestamps\<close>

text \<open>
  \<open>datetime.fromtimestamp(t, timezone.utc)\<close> of CPython on a 64-bit Linux, with the
  timestamp given in microseconds: \<open>OverflowError\<close> when the seconds do not fit \<open>time_t\<close>,
  \<open>OSError\<close> when \<open>gmtime\<close> cannot express the year, \<open>ValueError\<close> when the year is outside
  1 .. 9999, else the datetime. The division \<open>ts / 1000.0\<close> of the source is a floating-point
  division followed by rounding to microseconds; the model keeps the exact value.
\<close>

definition fromtimestamp :: "int \<Rightarrow> error + pyval" where
  "fromtimestamp us =
     (let sec = us div 1000000
      in if sec < - (2 ^ 63) \<or> 2 ^ 63 \<le> sec then Inl OverflowError
         else if sec < - 67768040609740800 \<or> 67767976233532799 < sec then Inl OSError
         else if us < - 62135596800000000 \<or> 253402300799999999 < us then Inl ValueError
         else Inr (PDatetime us))"

text \<open>
  The two converters catch \<open>ValueError\<close> only. An argument that is no number makes the
  arithmetic or the library call raise \<open>TypeError\<close>.
\<close>

definition timestamp_milliseconds_to_datetime :: "pyval \<Rightarrow> error + pyval" where
  "timestamp_milliseconds_to_datetime ts =
     (case as_int ts of
        None \<Rightarrow> Inl TypeError
      | Some n \<Rightarrow>
          (case fromtimestamp (n * 1000) of
             Inl e \<Rightarrow> (if e = ValueError then Inr PNone else Inl e)
           | Inr d \<Rightarrow> Inr d))"

definition timestamp_seconds_to_datetime :: "pyval \<Rightarrow> error + pyval" where
  "timestamp_seconds_to_datetime ts =
     (case as_int ts of
        None \<Rightarrow> Inl TypeError
      | Some n \<Rightarrow>
          (case fromtimestamp (n * 1000000) of
             Inl e \<Rightarrow> (if e = ValueError then Inr PNone else Inl e)
           | Inr d \<Rightarrow> Inr d))"

section \<open>The activity envelope (\<open>unmarshall_activity\<close>)\<close>

text \<open>The dict with the keys \<open>timestamp\<close>, \<open>user_id\<close> and \<open>device_id\<close> that the parser returns.\<close>

record activity =
  timestamp :: pyval
  user_id :: pyval
  device_id :: pyval

text \<open>
  In the order of the source: \<open>True\<close> raises \<open>AssertionError\<close>; a value that is neither a
  boolean nor a dict raises \<open>ValueError\<close>; a falsy value (\<open>False\<close> or the empty dict) returns
  the initial result; then the \<open>timestamp\<close> key is required, and its conversion must not
  give \<open>None\<close>.
\<close>

fun unmarshall_activity :: "pyval \<Rightarrow> error + activity" where
  "unmarshall_activity (PBool b) =
     (if b then Inl AssertionError
      else Inr \<lparr>timestamp = PNone, user_id = PNone, device_id = PNone\<rparr>)"
| "unmarshall_activity (PDict d) =
     (if \<not> truthy (PDict d) then Inr \<lparr>timestamp = PNone, user_id = PNone, device_id = PNone\<rparr>
      else
        (case map_of d ''timestamp'' of
           None \<Rightarrow> Inl ValueError
         | Some ts \<Rightarrow>
             bind (timestamp_milliseconds_to_datetime ts)
               (\<lambda>t. if t = PNone then Inl ValueError
                    else Inr \<lparr>timestamp = t,
                              user_id = dict_get d ''userRecordName'' PNone,
                              device_id = dict_get d ''deviceID'' PNone\<rparr>)))"
| "unmarshall_activity _ = Inl ValueError"

section \<open>Sorting styles\<close>

definition from_string :: "pyval \<Rightarrow> error + pyval" where
  "from_string v =
     (if str_eq v ''manual'' then Inr (PEnum MANUAL)
      else if str_eq v ''displayDate_asc'' then Inr (PEnum DISPLAY_DATE_ASCENDING)
      else if str_eq v ''displayDate_desc'' then Inr (PEnum DISPLAY_DATE_DESCENDING)
      else if str_eq v ''title_asc'' then Inr (PEnum TITLE_ASCENDING)
      else if str_eq v ''title_desc'' then Inr (PEnum TITLE_DESCENDING)
      else Inl ValueError)"


section \<open>Unmarshalling a record (\<open>unmarshall\<close>)\<close>

text \<open>\<open>result.get("record_id", "unknown")\<close>, the record id the diagnostics name.\<close>

definition record_id_of :: "pydict \<Rightarrow> pyval" where
  "record_id_of result = dict_get result ''record_id'' (PStr ''unknown'')"

text \<open>
  The chain on \<open>field_value["type"]\<close>: the value a field gets from its wire type tag, and
  the diagnostic of the last branch, which stores \<open>field_value\<close> itself.
\<close>

definition coerce_field :: "stdlib \<Rightarrow> pyval \<Rightarrow> string \<Rightarrow> pyval \<Rightarrow> error + (pyval \<times> log list)" where
  "coerce_field L record_id field_name field_value =
     bind (getitem field_value ''type'')
       (\<lambda>ty.
          if str_eq ty ''STRING'' then
            bind (getitem field_value ''value'') (\<lambda>v. Inr (v, []))
          else if str_eq ty ''INT64'' then
            bind (getitem field_value ''value'') (\<lambda>v. bind (py_int L v) (\<lambda>n. Inr (n, [])))
          else if str_eq ty ''BOOLEAN'' then
            bind (getitem field_value ''value'') (\<lambda>v. Inr (PBool (truthy v), []))
          else if str_eq ty ''TIMESTAMP'' then
            bind (getitem field_value ''value'')
              (\<lambda>v. bind (timestamp_milliseconds_to_datetime v) (\<lambda>d. Inr (d, [])))
          else if str_eq ty ''ASSETID'' then
            bind (getitem field_value ''value'') (\<lambda>v. Inr (v, []))
          else Inr (field_value, [UnknownFieldType ty field_name record_id]))"

text \<open>
  The second chain, on the canonical field name. \<open>v\<close> is the value the first chain has just
  stored in \<open>fields[field_name]\<close>; the result is the value stored there in the end.
  \<open>data\<close> is the record being unmarshalled: the branch for \<open>sorting_style\<close> reads
  \<open>data["fields"]\<close>, the wire fields, under the canonical name and wraps the member in a
  one-element tuple (the expression ends in a comma).
\<close>

definition post_process ::
  "stdlib \<Rightarrow> pydict \<Rightarrow> pyval \<Rightarrow> string \<Rightarrow> pyval \<Rightarrow> pyval \<Rightarrow> error + (pyval \<times> log list)" where
  "post_process L data record_id field_name field_value v =
     (if field_name \<in> {''color'', ''reminder_ids'', ''resolution_token_map''} then
        bind (getitem field_value ''value'')
          (\<lambda>raw.
             case as_str raw of
               None \<Rightarrow> Inl TypeError
             | Some s \<Rightarrow>
                 (case json_loads L s of
                    Some j \<Rightarrow> Inr (j, [])
                  | None \<Rightarrow> Inr (PDict [], [FailedToParseField field_name raw record_id])))
      else if field_name \<in> {''deleted'', ''imported'', ''is_group'', ''is_linked_to_account'',
                             ''should_categorize_grocery_items''} then
        Inr (PBool (eq_one v), [])
      else if field_name \<in> {''sorting_style''} then
        bind (getitem (PDict data) ''fields'')
          (\<lambda>wire_fields.
             bind (get_method wire_fields field_name (PStr ''manual''))
               (\<lambda>style. bind (from_string style) (\<lambda>e. Inr (PTuple [e], []))))
      else Inr (v, []))"

text \<open>One round of the loop over \<open>data_value.items()\<close>.\<close>

definition unmarshall_field ::
  "stdlib \<Rightarrow> pydict \<Rightarrow> pyval \<Rightarrow> pydict \<times> log list \<Rightarrow> string \<times> pyval
     \<Rightarrow> error + (pydict \<times> log list)" where
  "unmarshall_field L data record_id st item =
     (case st of (flds, logs) \<Rightarrow>
      case item of (wire_name, field_value) \<Rightarrow>
        let field_name = to_snake_case wire_name
        in bind (coerce_field L record_id field_name field_value)
             (\<lambda>(v, logs1).
                bind (post_process L data record_id field_name field_value v)
                  (\<lambda>(v', logs2). Inr (dict_set flds field_name v', logs @ logs1 @ logs2))))"

text \<open>The placeholder for a missing or empty \<open>name\<close>, after the loop over the fields (\<open>flds\<close> is the \<open>fields\<close> of the source).\<close>

definition default_name :: "pyval \<Rightarrow> pydict \<times> log list \<Rightarrow> pydict \<times> log list" where
  "default_name record_id st =
     (case st of (flds, logs) \<Rightarrow>
        if \<not> has_key flds ''name'' \<or> \<not> truthy (dict_get flds ''name'' PNone)
        then (dict_set flds ''name'' (PStr ''Unknown''), logs @ [NameMissingOrEmpty record_id])
        else (flds, logs))"

text \<open>One round of the loop over \<open>data.items()\<close>: the state is \<open>result\<close> and the diagnostics.\<close>

definition unmarshall_item ::
  "stdlib \<Rightarrow> pydict \<Rightarrow> pydict \<times> log list \<Rightarrow> string \<times> pyval \<Rightarrow> error + (pydict \<times> log list)" where
  "unmarshall_item L data st item =
     (case st of (result, logs) \<Rightarrow>
      case item of (data_key, data_value) \<Rightarrow>
        if data_key = ''recordName'' then Inr (dict_set result ''record_id'' data_value, logs)
        else if data_key \<in> {''created'', ''deleted'', ''modified''} then
          bind (unmarshall_activity data_value)
            (\<lambda>parsed.
               Inr (dict_set
                      (dict_set
                         (dict_set result (to_snake_case data_key @ ''_date'') (timestamp parsed))
                         (to_snake_case data_key @ ''_by_user'') (user_id parsed))
                      (to_snake_case data_key @ ''_by_device'') (device_id parsed),
                    logs))
        else if data_key = ''expirationTime'' then
          bind (timestamp_seconds_to_datetime data_value)
            (\<lambda>d. Inr (dict_set result ''expiration_date'' d, logs))
        else if data_key = ''fields'' then
          bind (items data_value)
            (\<lambda>wire_fields.
               bind (foldM (unmarshall_field L data (record_id_of result)) wire_fields ([], logs))
                 (\<lambda>st'. case default_name (record_id_of result) st' of
                          (flds, logs') \<Rightarrow> Inr (dict_set result ''fields'' (PDict flds), logs')))
        else if data_key = ''share'' then
          Inr (dict_set result (to_snake_case data_key) data_value, logs)
        else if as_str data_value \<noteq> None \<or> as_int data_value \<noteq> None then
          Inr (dict_set result (to_snake_case data_key) data_value, logs)
        else
          Inr (dict_set result (to_snake_case data_key) data_value,
               logs @ [ComplexTypeNoHandling data_key (record_id_of result) data_value]))"

definition unmarshall :: "stdlib \<Rightarrow> pydict \<Rightarrow> error + (pydict \<times> log list)" where
  "unmarshall L data = foldM (unmarshall_item L data) data ([], [])"


section \<open>Reminder lists: the constructors\<close>

datatype list_class = StandardRemindersList | SharedRemindersList | EnhancedRemindersList

text \<open>
  An instance: its class, the two core attributes, and the other instance attributes by
  name. The \<open>service\<close> back-reference and the cache \<open>_reminders\<close> are left out.
\<close>

record rlist =
  cls :: list_class
  list_id :: pyval
  name :: pyval
  attrs :: pydict

text \<open>
  The keyword parameters of \<open>BaseRemindersList.__init__\<close> other than \<open>service\<close>, which
  \<open>from_data\<close> passes itself: a call \<open>C(service=service, **data)\<close> raises \<open>TypeError\<close> when
  \<open>data\<close> has a key that is no parameter (\<open>service\<close> and \<open>self\<close> among them) or lacks a
  parameter without default.
\<close>

definition base_required :: "string list" where
  "base_required =
     [''list_id'', ''created_date'', ''created_by_user'', ''created_by_device'',
      ''modified_date'', ''modified_by_user'', ''modified_by_device'']"

definition base_optional :: "string list" where
  "base_optional =
     [''deleted_date'', ''deleted_by_user'', ''deleted_by_device'', ''badge_emblem'',
      ''chain_private_key'', ''chain_protection_info'', ''color'', ''count'', ''deleted'',
      ''displayed_hostname'', ''expiration_date'', ''grocery_local_corrections_as_data'',
      ''grocery_local_corrections_checksum'', ''grocery_locale_id'', ''imported'',
      ''imported_date'', ''is_group'', ''is_linked_to_account'', ''list_name'',
      ''memberships_of_reminders_in_sections_as_data'',
      ''memberships_of_reminders_in_sections_checksum'', ''parent_list'', ''pinned_date'',
      ''plugin_fields'', ''record_change_tag'', ''reminder_ids_asset'', ''reminder_ids'',
      ''resolution_token_map'', ''section_ids_ordering_as_data'', ''share'', ''short_guid'',
      ''should_categorize_grocery_items'', ''sorting_style'', ''stable_url'']"

text \<open>The attributes the base constructor assigns besides \<open>list_id\<close> and \<open>name\<close>.\<close>

definition base_attributes :: "string list" where
  "base_attributes =
     [''count'', ''deleted'', ''imported'', ''is_group'', ''is_linked_to_account'',
      ''record_change_tag'', ''reminder_ids'', ''resolution_token_map'', ''sorting_style'',
      ''parent_list'', ''plugin_fields'', ''created_date'', ''created_by_user'',
      ''created_by_device'', ''modified_date'', ''modified_by_user'', ''modified_by_device'',
      ''deleted_date'', ''deleted_by_user'', ''deleted_by_device'']"

definition BaseRemindersList_init :: "list_class \<Rightarrow> pydict \<Rightarrow> error + rlist" where
  "BaseRemindersList_init c kwargs =
     (if \<exists>k \<in> set (map fst kwargs). k \<notin> set (base_required @ base_optional) then Inl TypeError
      else if \<exists>k \<in> set base_required. \<not> has_key kwargs k then Inl TypeError
      else Inr \<lparr>cls = c,
                list_id = dict_get kwargs ''list_id'' PNone,
                name = dict_get kwargs ''list_name'' PNone,
                attrs = map (\<lambda>a. (a, dict_get kwargs a PNone)) base_attributes\<rparr>)"

text \<open>
  \<open>StandardRemindersList.__init__(self, expiration_date=None, parent_list=None, **kwargs)\<close>
  takes its two parameters out of the keywords, so the base constructor sees neither.
\<close>

definition StandardRemindersList_init :: "list_class \<Rightarrow> pydict \<Rightarrow> error + rlist" where
  "StandardRemindersList_init c kwargs =
     bind (BaseRemindersList_init c
             (AList.delete ''parent_list'' (AList.delete ''expiration_date'' kwargs)))
       (\<lambda>self.
          Inr (self\<lparr>attrs :=
                 dict_set (dict_set (attrs self) ''expiration_date''
                             (dict_get kwargs ''expiration_date'' PNone))
                   ''parent_list'' (dict_get kwargs ''parent_list'' PNone)\<rparr>))"

text \<open>
  \<open>SharedRemindersList.__init__(self, share, stable_url, short_guid, **kwargs)\<close>: the three
  parameters have no default.
\<close>

definition SharedRemindersList_init :: "pydict \<Rightarrow> error + rlist" where
  "SharedRemindersList_init kwargs =
     (if \<not> has_key kwargs ''share'' \<or> \<not> has_key kwargs ''stable_url''
         \<or> \<not> has_key kwargs ''short_guid'' then Inl TypeError
      else
        let should_auto_categorize_items = dict_get kwargs ''should_auto_categorize_items'' PNone;
            rest = AList.delete ''should_auto_categorize_items''
                     (AList.delete ''short_guid''
                        (AList.delete ''stable_url'' (AList.delete ''share'' kwargs)))
        in bind (StandardRemindersList_init SharedRemindersList rest)
             (\<lambda>self.
                let a = dict_set
                          (dict_set (dict_set (attrs self) ''share'' (dict_get kwargs ''share'' PNone))
                             ''stable_url'' (dict_get kwargs ''stable_url'' PNone))
                          ''short_guid'' (dict_get kwargs ''short_guid'' PNone)
                in Inr (self\<lparr>attrs :=
                          (if truthy should_auto_categorize_items
                           then dict_set a ''should_auto_categorize_items''
                                  should_auto_categorize_items
                           else a)\<rparr>)))"

definition EnhancedRemindersList_init :: "pydict \<Rightarrow> error + rlist" where
  "EnhancedRemindersList_init kwargs =
     (let should_auto_categorize_items = dict_get kwargs ''should_auto_categorize_items'' PNone;
          should_categorize_grocery_items =
            dict_get kwargs ''should_categorize_grocery_items'' (PBool True);
          rest = AList.delete ''should_categorize_grocery_items''
                   (AList.delete ''should_auto_categorize_items'' kwargs)
      in bind (StandardRemindersList_init EnhancedRemindersList rest)
           (\<lambda>self.
              let a = (if truthy should_auto_categorize_items
                       then dict_set (attrs self) ''should_auto_categorize_items''
                              should_auto_categorize_items
                       else attrs self)
              in Inr (self\<lparr>attrs :=
                        (if truthy should_categorize_grocery_items
                         then dict_set a ''should_categorize_grocery_items''
                                should_categorize_grocery_items
                         else a)\<rparr>)))"


definition StandardRemindersList_from_data :: "pydict \<Rightarrow> error + rlist" where
  "StandardRemindersList_from_data data = StandardRemindersList_init StandardRemindersList data"

definition SharedRemindersList_from_data :: "pydict \<Rightarrow> error + rlist" where
  "SharedRemindersList_from_data data = SharedRemindersList_init data"

definition EnhancedRemindersList_from_data :: "pydict \<Rightarrow> error + rlist" where
  "EnhancedRemindersList_from_data data = EnhancedRemindersList_init data"

section \<open>Materialising a list from a record (\<open>BaseRemindersList.from_record\<close>)\<close>

text \<open>\<open>d.pop(k)\<close> and \<open>del d[k]\<close> on a dict.\<close>

definition dict_pop :: "pydict \<Rightarrow> string \<Rightarrow> error + (pyval \<times> pydict)" where
  "dict_pop d k =
     (case map_of d k of None \<Rightarrow> Inl (KeyError (PStr k)) | Some v \<Rightarrow> Inr (v, AList.delete k d))"

definition dict_del :: "pydict \<Rightarrow> string \<Rightarrow> error + pydict" where
  "dict_del d k =
     (case map_of d k of None \<Rightarrow> Inl (KeyError (PStr k)) | Some _ \<Rightarrow> Inr (AList.delete k d))"

text \<open>
  \<open>v.pop("name")\<close> on the value of \<open>data["fields"]\<close>: a dict pops the key, a list wants an
  integer, other values have no such method.
\<close>

definition pop_name :: "pyval \<Rightarrow> error + (pyval \<times> pydict)" where
  "pop_name v =
     (case v of
        PDict d \<Rightarrow> dict_pop d ''name''
      | PList _ \<Rightarrow> Inl TypeError
      | _ \<Rightarrow> Inl AttributeError)"

text \<open>
  One round of the loop that lifts the fields into \<open>data\<close>. The \<open>KeyError\<close> of a collision
  carries the field name here, a message with the whole of \<open>data\<close> in the source.
\<close>

definition merge_field :: "pydict \<Rightarrow> string \<times> pyval \<Rightarrow> error + pydict" where
  "merge_field data item =
     (case item of (field_name, field_value) \<Rightarrow>
        if has_key data field_name \<and> field_name \<notin> {''name''}
        then Inl (KeyError (PStr field_name))
        else Inr (dict_set data field_name field_value))"

text \<open>
  The head of \<open>from_record\<close>: the check of the record type, \<open>unmarshall\<close>, and the check
  that its result is not empty.
\<close>

definition unmarshall_checked :: "stdlib \<Rightarrow> pyval \<Rightarrow> error + (pydict \<times> log list)" where
  "unmarshall_checked L record =
     bind (getitem record ''recordType'')
       (\<lambda>record_type.
          if \<not> str_eq record_type ''List''
          then Inl (PyiCloudAPIResponseException ''Record is not a List'')
          else
            bind (items record)
              (\<lambda>r. bind (unmarshall L r)
                 (\<lambda>(data, logs).
                    if data = []
                    then Inl (PyiCloudAPIResponseException ''Failed to unmarshall record'')
                    else Inr (data, logs))))"

text \<open>
  \<open>from_record\<close> up to and including \<open>del data["fields"]\<close>. \<open>pop("name")\<close> changes the dict
  that \<open>data["fields"]\<close> holds, which the later loop reads.
\<close>

definition flatten_record :: "stdlib \<Rightarrow> pyval \<Rightarrow> error + (pydict \<times> log list)" where
  "flatten_record L record =
     bind (unmarshall_checked L record)
       (\<lambda>(data, logs).
          bind (dict_pop data ''record_id'')
            (\<lambda>(rid, data1).
               let data2 = dict_set data1 ''list_id'' rid
               in bind (getitem (PDict data2) ''fields'')
                    (\<lambda>fv. bind (pop_name fv)
                       (\<lambda>(nm, flds).
                          let data3 = dict_set (dict_set data2 ''fields'' (PDict flds))
                                        ''list_name'' nm
                          in bind (dict_del data3 ''record_type'')
                               (\<lambda>data4. bind (foldM merge_field flds data4)
                                  (\<lambda>data5. bind (dict_del data5 ''fields'')
                                     (\<lambda>data6. Inr (data6, logs))))))))"

text \<open>
  The flattened attributes \<open>data\<close> as they are when the class is chosen, after
  \<open>del data["zone_id"]\<close>.
\<close>

definition flat_attributes :: "stdlib \<Rightarrow> pyval \<Rightarrow> error + (pydict \<times> log list)" where
  "flat_attributes L record =
     bind (flatten_record L record)
       (\<lambda>(data6, logs). bind (dict_del data6 ''zone_id'') (\<lambda>data. Inr (data, logs)))"

text \<open>
  The choice of the class, in the order of the source. A fault of a constructor is raised
  again as it is (the handler prints \<open>data\<close> first).
\<close>

definition dispatch_variant :: "pydict \<Rightarrow> error + rlist" where
  "dispatch_variant data =
     (if has_key data ''share'' then SharedRemindersList_from_data data
      else if has_key data ''should_categorize_grocery_items''
      then EnhancedRemindersList_from_data data
      else StandardRemindersList_from_data data)"

definition from_record :: "stdlib \<Rightarrow> pyval \<Rightarrow> error + (rlist \<times> log list)" where
  "from_record L record =
     bind (flat_attributes L record)
       (\<lambda>(data, logs). bind (dispatch_variant data) (\<lambda>l. Inr (l, logs)))"

section \<open>Zones\<close>

record ZoneIDObject =
  zone_name :: pyval
  zone_type :: pyval
  owner_record_name :: pyval

text \<open>The \<open>url\<close> of a zone is built from the service's endpoint and is left out.\<close>

record ZoneObject =
  zone_id :: ZoneIDObject
  atomic :: pyval
  is_eligible_for_hierarchical_share :: pyval
  is_eligible_for_zone_share :: pyval
  sync_token :: pyval

text \<open>A name between single quotes, for the messages.\<close>

definition quoted :: "string \<Rightarrow> string" where
  "quoted s = [CHR 0x27] @ s @ [CHR 0x27]"

definition PRIMARY_ZONE :: "(string \<times> string) list" where
  "PRIMARY_ZONE = [(''zoneName'', ''Reminders''), (''zoneType'', ''REGULAR_CUSTOM_ZONE'')]"

definition ZoneIDObject_from_record :: "pyval \<Rightarrow> error + ZoneIDObject" where
  "ZoneIDObject_from_record record =
     (case record of
        PDict d \<Rightarrow>
          if \<not> has_key d ''zoneName''
          then Inl (PyiCloudAPIResponseException (''Record should contain '' @ quoted ''zoneName''))
          else if \<not> has_key d ''zoneType''
          then Inl (PyiCloudAPIResponseException (''Record should contain '' @ quoted ''zoneType''))
          else if \<not> has_key d ''ownerRecordName''
          then Inl (PyiCloudAPIResponseException (''Record should contain '' @ quoted ''ownerRecordName''))
          else Inr \<lparr>zone_name = dict_get d ''zoneName'' PNone,
                    zone_type = dict_get d ''zoneType'' PNone,
                    owner_record_name = dict_get d ''ownerRecordName'' PNone\<rparr>
      | _ \<Rightarrow> Inl (PyiCloudAPIResponseException ''Record is not a dict''))"

definition ZoneIDObject_to_dict :: "ZoneIDObject \<Rightarrow> pydict" where
  "ZoneIDObject_to_dict z =
     [(''zoneName'', zone_name z), (''zoneType'', zone_type z),
      (''ownerRecordName'', owner_record_name z)]"


text \<open>
  \<open>ZoneObject.from_record\<close>: the checks in the order of the source, then the constructor,
  which builds the zone id with \<open>ZoneIDObject.from_record\<close>.
\<close>

definition ZoneObject_from_record :: "pyval \<Rightarrow> error + ZoneObject" where
  "ZoneObject_from_record record =
     (if \<not> truthy record \<or> record = PNone \<or> \<not> is_dict record
      then Inl (PyiCloudAPIResponseException ''Record is empty'')
      else
        case record of
          PDict d \<Rightarrow>
            if \<not> has_key d ''atomic''
            then Inl (PyiCloudAPIResponseException
                        (''Zone record should contain field '' @ quoted ''atomic''))
            else if \<not> has_key d ''isEligibleForHierarchicalShare''
            then Inl (PyiCloudAPIResponseException
                        (''Zone record should contain field ''
                         @ quoted ''isisEligibleForHierarchicalShare''))
            else if \<not> has_key d ''isEligibleForZoneShare''
            then Inl (PyiCloudAPIResponseException
                        (''Zone record should contain field '' @ quoted ''isEligibleForZoneShare''))
            else if \<not> has_key d ''zoneID''
            then Inl (PyiCloudAPIResponseException
                        (''Zone record should contain field '' @ quoted ''zoneID''))
            else
              (case dict_get d ''zoneID'' PNone of
                 PDict z \<Rightarrow>
                   if \<not> has_key z ''zoneName''
                   then Inl (PyiCloudAPIResponseException
                               (''Zone record's 'zoneID' field should contain ''
                                @ quoted ''zoneName''))
                   else if \<not> has_key z ''zoneType''
                   then Inl (PyiCloudAPIResponseException
                               (''Zone record's 'zoneID' field should contain ''
                                @ quoted ''zoneType''))
                   else if \<not> has_key z ''ownerRecordName''
                   then Inl (PyiCloudAPIResponseException
                               (''Zone record's 'zoneID' field should contain ''
                                @ quoted ''ownerRecordName''))
                   else if has_key d ''syncToken'' \<and> as_str (dict_get d ''syncToken'' PNone) = None
                   then Inl (PyiCloudAPIResponseException
                               ''Zone records field 'syncToken' is optional but must be a str, if present'')
                   else
                     bind (ZoneIDObject_from_record (PDict z))
                       (\<lambda>zid.
                          Inr \<lparr>zone_id = zid,
                               atomic = dict_get d ''atomic'' PNone,
                               is_eligible_for_hierarchical_share =
                                 dict_get d ''isEligibleForHierarchicalShare'' PNone,
                               is_eligible_for_zone_share =
                                 dict_get d ''isEligibleForZoneShare'' PNone,
                               sync_token = dict_get d ''syncToken'' PNone\<rparr>)
               | _ \<Rightarrow> Inl (PyiCloudAPIResponseException
                             ''Zone record's 'zoneID' field should be a dict''))
        | _ \<Rightarrow> Inl (PyiCloudAPIResponseException ''Record is empty''))"

text \<open>
  \<open>ZonesContainer._fetch_zones\<close>, given the decoded body of the one \<open>zones/list\<close> request:
  the list comprehension stops at the first record that \<open>from_record\<close> rejects.
\<close>

definition fetch_zones :: "pyval \<Rightarrow> error + ZoneObject list" where
  "fetch_zones response =
     bind (get_method response ''zones'' (PList []))
       (\<lambda>zones. bind (py_iter zones) (\<lambda>records. mapM ZoneObject_from_record records))"

text \<open>The container's state is its cache \<open>_records\<close>.\<close>

record ZonesContainer =
  zone_records :: "ZoneObject list"

text \<open>The property \<open>records\<close>: an empty cache is filled by a fetch.\<close>

definition ZonesContainer_records ::
  "ZonesContainer \<Rightarrow> pyval \<Rightarrow> error + (ZoneObject list \<times> ZonesContainer)" where
  "ZonesContainer_records self response =
     (if zone_records self = []
      then bind (fetch_zones response) (\<lambda>zs. Inr (zs, self\<lparr>zone_records := zs\<rparr>))
      else Inr (zone_records self, self))"

text \<open>\<open>ZonesContainer.__getitem__\<close>: the first zone of that name, else \<open>KeyError\<close>.\<close>

definition ZonesContainer_getitem ::
  "ZonesContainer \<Rightarrow> pyval \<Rightarrow> string \<Rightarrow> error + (ZoneObject \<times> ZonesContainer)" where
  "ZonesContainer_getitem self response nm =
     bind (ZonesContainer_records self response)
       (\<lambda>(records, self').
          case find (\<lambda>record. str_eq (zone_name (zone_id record)) nm) records of
            Some record \<Rightarrow> Inr (record, self')
          | None \<Rightarrow> Inl (KeyError (PStr (''Zone '' @ quoted nm @ '' not found.''))))"

text \<open>
  \<open>ZoneObject\<close> defines neither \<open>__bool__\<close> nor \<open>__len__\<close>: \<open>not zone\<close> is false for every
  instance.
\<close>

definition ZoneObject_truthy :: "ZoneObject \<Rightarrow> bool" where
  "ZoneObject_truthy zone = True"

text \<open>
  \<open>RemindersService.__init__\<close> from the creation of the zones container on, given the body
  of the \<open>zones/list\<close> response: it returns the primary zone the service keeps.
\<close>

definition RemindersService_init :: "pyval \<Rightarrow> error + ZoneObject" where
  "RemindersService_init zones_response =
     (let all_zones = \<lparr>zone_records = []\<rparr>
      in bind (ZonesContainer_getitem all_zones zones_response
                 (case map_of PRIMARY_ZONE ''zoneName'' of Some s \<Rightarrow> s | None \<Rightarrow> []))
           (\<lambda>(zone, all_zones').
              if \<not> ZoneObject_truthy zone
              then Inl (PyiCloudServiceNotActivatedException
                          (''Could not find Primary Zone ''
                           @ quoted (case map_of PRIMARY_ZONE ''zoneName'' of
                                       Some s \<Rightarrow> s | None \<Rightarrow> [])
                           @ ''.''))
              else Inr zone))"


section \<open>Paginated fetch\<close>

text \<open>
  The condition of the \<open>while\<close> loop, on the query:
  \<open>"continuationMarker" not in query or query["continuationMarker"] is not None\<close>.
\<close>

definition loop_condition :: "pydict \<Rightarrow> bool" where
  "loop_condition query =
     (\<not> has_key query ''continuationMarker'' \<or> dict_get query ''continuationMarker'' PNone \<noteq> PNone)"

text \<open>
  The loop of \<open>_fetch_lists\<close> and \<open>_fetch_reminders\<close> (the same text in both). The transport
  is the list of the decoded bodies it will answer with, one for each \<open>post\<close>; \<open>sent\<close>
  collects the query of each \<open>post\<close> as it was when posted. The result is \<open>None\<close> when the
  loop wants a further response after the last one given: with a server that never ends
  the pagination the loop does not return. The queries hold JSON values only, so
  \<open>json.dumps(query)\<close> raises nothing.
\<close>

fun query_loop ::
  "pydict \<Rightarrow> pyval list \<Rightarrow> pydict list \<Rightarrow> pyval list
     \<Rightarrow> (error + (pyval list \<times> pydict list)) option" where
  "query_loop query records sent [] =
     (if loop_condition query then None else Some (Inr (records, sent)))"
| "query_loop query records sent (response # rest) =
     (if loop_condition query then
        (case bind (getitem response ''records'') py_iter of
           Inl e \<Rightarrow> Some (Inl e)
         | Inr new_records \<Rightarrow>
             (case get_method response ''continuationMarker'' PNone of
                Inl e \<Rightarrow> Some (Inl e)
              | Inr marker \<Rightarrow>
                  query_loop (dict_set query ''continuationMarker'' marker)
                    (records @ new_records) (sent @ [query]) rest))
      else Some (Inr (records, sent)))"

section \<open>The lists container\<close>

text \<open>
  Keys of a Python dict: lists and dicts cannot be keys; \<open>True\<close> and \<open>1\<close> are the same key,
  and so are a member of \<open>SortingStyleEnum\<close> and its string value.
\<close>

fun hashable :: "pyval \<Rightarrow> bool" where
  "hashable (PList _) = False"
| "hashable (PDict _) = False"
| "hashable (PTuple xs) = list_all hashable xs"
| "hashable _ = True"

fun key_norm :: "pyval \<Rightarrow> pyval" where
  "key_norm (PBool b) = PInt (if b then 1 else 0)"
| "key_norm (PEnum e) = PStr (enum_value e)"
| "key_norm (PTuple xs) = PTuple (map key_norm xs)"
| "key_norm v = v"

definition key_eq :: "pyval \<Rightarrow> pyval \<Rightarrow> bool" where
  "key_eq a b = (key_norm a = key_norm b)"

type_synonym lists_dict = "(pyval \<times> rlist) list"

fun lists_update :: "pyval \<Rightarrow> rlist \<Rightarrow> lists_dict \<Rightarrow> lists_dict" where
  "lists_update k v [] = [(k, v)]"
| "lists_update k v ((k', v') # rest) =
     (if key_eq k' k then (k', v) # rest else (k', v') # lists_update k v rest)"

fun lists_lookup :: "lists_dict \<Rightarrow> pyval \<Rightarrow> rlist option" where
  "lists_lookup [] k = None"
| "lists_lookup ((k', v') # rest) k = (if key_eq k' k then Some v' else lists_lookup rest k)"

text \<open>\<open>lists[k] = v\<close> and \<open>lists[k]\<close>.\<close>

definition lists_setitem :: "lists_dict \<Rightarrow> pyval \<Rightarrow> rlist \<Rightarrow> error + lists_dict" where
  "lists_setitem lsts k v = (if hashable k then Inr (lists_update k v lsts) else Inl TypeError)"

definition lists_getitem :: "lists_dict \<Rightarrow> pyval \<Rightarrow> error + rlist" where
  "lists_getitem lsts k =
     (if \<not> hashable k then Inl TypeError
      else case lists_lookup lsts k of None \<Rightarrow> Inl (KeyError k) | Some v \<Rightarrow> Inr v)"

text \<open>The last loop of \<open>_fetch_lists\<close>: \<open>lists[record.name] = record\<close> for each object.\<close>

definition store_lists :: "rlist list \<Rightarrow> error + lists_dict" where
  "store_lists record_objects =
     foldM (\<lambda>lsts record. lists_setitem lsts (name record) record) record_objects []"

definition lists_query :: "ZoneObject \<Rightarrow> pydict" where
  "lists_query zone =
     [(''query'', PDict [(''recordType'', PStr ''Lists'')]),
      (''resultsLimit'', PInt 200),
      (''zoneID'', PDict (ZoneIDObject_to_dict (zone_id zone)))]"

text \<open>
  \<open>ListsContainer._fetch_lists\<close>: the loop, then \<open>from_record\<close> on every record in order
  (the first fault ends the fetch), then the dict. The result has the dict, the queries
  posted and the diagnostics.
\<close>

definition fetch_lists ::
  "stdlib \<Rightarrow> ZoneObject \<Rightarrow> pyval list \<Rightarrow> (error + (lists_dict \<times> pydict list \<times> log list)) option" where
  "fetch_lists L zone responses =
     (case query_loop (lists_query zone) [] [] responses of
        None \<Rightarrow> None
      | Some (Inl e) \<Rightarrow> Some (Inl e)
      | Some (Inr (records, sent)) \<Rightarrow>
          Some (bind (mapM (from_record L) records)
                  (\<lambda>made. bind (store_lists (map fst made))
                     (\<lambda>lsts. Inr (lsts, sent, concat (map snd made))))))"

text \<open>The container's state is its cache \<open>_records\<close>.\<close>

record ListsContainer =
  list_records :: lists_dict

text \<open>The property \<open>records\<close>: an empty cache is filled by a fetch.\<close>

definition ListsContainer_records ::
  "stdlib \<Rightarrow> ZoneObject \<Rightarrow> ListsContainer \<Rightarrow> pyval list
     \<Rightarrow> (error + (lists_dict \<times> ListsContainer)) option" where
  "ListsContainer_records L zone self responses =
     (if list_records self = [] then
        (case fetch_lists L zone responses of
           None \<Rightarrow> None
         | Some (Inl e) \<Rightarrow> Some (Inl e)
         | Some (Inr (lsts, _)) \<Rightarrow> Some (Inr (lsts, self\<lparr>list_records := lsts\<rparr>)))
      else Some (Inr (list_records self, self)))"

text \<open>
  \<open>refresh\<close>: a fetch whose result replaces the cache, with the diagnostic that counts the
  lists.
\<close>

definition ListsContainer_refresh ::
  "stdlib \<Rightarrow> ZoneObject \<Rightarrow> ListsContainer \<Rightarrow> pyval list
     \<Rightarrow> (error + (ListsContainer \<times> log list)) option" where
  "ListsContainer_refresh L zone self responses =
     (case fetch_lists L zone responses of
        None \<Rightarrow> None
      | Some (Inl e) \<Rightarrow> Some (Inl e)
      | Some (Inr (lsts, sent, logs)) \<Rightarrow>
          Some (Inr (self\<lparr>list_records := lsts\<rparr>, logs @ [RefreshedLists (length lsts)])))"

text \<open>\<open>get_by_id\<close> is \<open>self.records[list_id]\<close>, and \<open>__getitem__\<close> is \<open>get_by_id\<close>.\<close>

definition get_by_id ::
  "stdlib \<Rightarrow> ZoneObject \<Rightarrow> ListsContainer \<Rightarrow> pyval list \<Rightarrow> pyval
     \<Rightarrow> (error + (rlist \<times> ListsContainer)) option" where
  "get_by_id L zone self responses lid =
     (case ListsContainer_records L zone self responses of
        None \<Rightarrow> None
      | Some (Inl e) \<Rightarrow> Some (Inl e)
      | Some (Inr (lsts, self')) \<Rightarrow>
          Some (bind (lists_getitem lsts lid) (\<lambda>l. Inr (l, self'))))"

definition ListsContainer_getitem ::
  "stdlib \<Rightarrow> ZoneObject \<Rightarrow> ListsContainer \<Rightarrow> pyval list \<Rightarrow> pyval
     \<Rightarrow> (error + (rlist \<times> ListsContainer)) option" where
  "ListsContainer_getitem L zone self responses ident = get_by_id L zone self responses ident"

section \<open>The reminders of a list\<close>

definition get_fetch_reminders_payload ::
  "ZoneObject \<Rightarrow> rlist \<Rightarrow> bool option \<Rightarrow> bool option \<Rightarrow> pydict" where
  "get_fetch_reminders_payload zone self include_completed lookup_validating_reference =
     (let include_completed = (case include_completed of None \<Rightarrow> False | Some b \<Rightarrow> b);
          lookup_validating_reference =
            (case lookup_validating_reference of None \<Rightarrow> True | Some b \<Rightarrow> b)
      in [(''query'',
           PDict
             [(''recordType'', PStr ''reminderList''),
              (''filterBy'',
               PList
                 [PDict
                    [(''fieldName'', PStr ''listID''),
                     (''comparator'', PStr ''EQUALS''),
                     (''fieldValue'',
                      PDict
                        [(''value'',
                          PDict [(''recordName'', list_id self), (''action'', PStr ''VALIDATE'')]),
                         (''type'', PStr ''REFERENCE'')])],
                  PDict
                    [(''fieldName'', PStr ''includeCompleted''),
                     (''comparator'', PStr ''EQUALS''),
                     (''fieldValue'',
                      PDict
                        [(''value'', PInt (if include_completed then 1 else 0)),
                         (''type'', PStr ''INT64'')])],
                  PDict
                    [(''fieldName'', PStr ''LookupValidatingReference''),
                     (''comparator'', PStr ''EQUALS''),
                     (''fieldValue'',
                      PDict
                        [(''value'', PInt (if lookup_validating_reference then 1 else 0)),
                         (''type'', PStr ''INT64'')])]])]),
          (''resultsLimit'', PInt 200),
          (''zoneID'',
           PDict
             [(''zoneName'', zone_name (zone_id zone)),
              (''ownerRecordName'', owner_record_name (zone_id zone))])])"

text \<open>
  \<open>BaseRemindersList._fetch_reminders\<close>: the same loop; the records are collected and then
  dropped, since \<open>record_objects\<close> is the empty list. The result is the empty dict with the
  queries posted.
\<close>

definition fetch_reminders ::
  "ZoneObject \<Rightarrow> rlist \<Rightarrow> pyval list \<Rightarrow> (error + ((string \<times> pyval) list \<times> pydict list)) option" where
  "fetch_reminders zone self responses =
     (case query_loop (get_fetch_reminders_payload zone self (Some False) (Some True)) [] []
             responses of
        None \<Rightarrow> None
      | Some (Inl e) \<Rightarrow> Some (Inl e)
      | Some (Inr (records, sent)) \<Rightarrow> Some (Inr ([], sent)))"


section \<open>Which wire names can reach an attribute\<close>




section \<open>Sample data\<close>

text \<open>A library whose parsers reject every string, a zone, and list records for the examples.\<close>

definition sample_stdlib :: stdlib where
  "sample_stdlib = \<lparr>json_loads = (\<lambda>_. None), int_of_str = (\<lambda>_. None)\<rparr>"

definition sample_zone :: ZoneObject where
  "sample_zone =
     \<lparr>zone_id = \<lparr>zone_name = PStr ''Reminders'', zone_type = PStr ''REGULAR_CUSTOM_ZONE'',
                 owner_record_name = PStr ''_owner''\<rparr>,
      atomic = PBool True,
      is_eligible_for_hierarchical_share = PBool False,
      is_eligible_for_zone_share = PBool True,
      sync_token = PNone\<rparr>"

definition sample_record :: "string \<Rightarrow> string \<Rightarrow> pydict \<Rightarrow> pydict" where
  "sample_record record_name display_name more_fields =
     [(''recordName'', PStr record_name),
      (''recordType'', PStr ''List''),
      (''fields'',
       PDict ((''Name'', PDict [(''type'', PStr ''STRING''), (''value'', PStr display_name)])
              # more_fields)),
      (''created'', PDict [(''timestamp'', PInt 1700000000000)]),
      (''modified'', PDict [(''timestamp'', PInt 1700000000000)]),
      (''deleted'', PBool False)]"

definition sample_zoneID :: "string \<times> pyval" where
  "sample_zoneID =
     (''zoneID'',
      PDict [(''zoneName'', PStr ''Reminders''), (''ownerRecordName'', PStr ''_owner''),
             (''zoneType'', PStr ''REGULAR_CUSTOM_ZONE'')])"

text \<open>
  A response after which the loop goes on, with its records and its token: a dict whose
  \<open>records\<close> are a list and whose \<open>continuationMarker\<close> is present and not \<open>None\<close>.
\<close>

definition token_page :: "pyval \<Rightarrow> pyval list \<times> pyval \<Rightarrow> bool" where
  "token_page response p =
     (case p of (recs, tok) \<Rightarrow>
        \<exists>d. response = PDict d \<and> map_of d ''records'' = Some (PList recs)
            \<and> map_of d ''continuationMarker'' = Some tok \<and> tok \<noteq> PNone)"

section \<open>Canonical names are fixed points\<close>














lemma to_snake_case_example: "to_snake_case ''SortingStyleIDs'' = ''sorting_style_ids''"
  by code_simp

section \<open>The activity envelope\<close>

text \<open>
  Claim C4. The envelope \<open>False\<close> gives an activity whose timestamp, user id and device id
  are all \<open>None\<close>; the envelope \<open>{"timestamp": 1700000000000}\<close> gives a datetime (not \<open>None\<close>)
  as timestamp and \<open>None\<close> for both actors; the envelope \<open>True\<close> raises \<open>AssertionError\<close>.
\<close>

theorem unmarshall_activity_envelopes:
  "unmarshall_activity (PBool False)
     = Inr \<lparr>timestamp = PNone, user_id = PNone, device_id = PNone\<rparr>
   \<and> unmarshall_activity (PDict [(''timestamp'', PInt 1700000000000)])
     = Inr \<lparr>timestamp = PDatetime 1700000000000000, user_id = PNone, device_id = PNone\<rparr>
   \<and> unmarshall_activity (PBool True) = Inl AssertionError"
  by code_simp

theorem unmarshall_activity_envelopes_witness:
  "unmarshall_activity (PBool True) = Inl AssertionError"
  by (rule unmarshall_activity_envelopes[THEN conjunct2, THEN conjunct2])

text \<open>
  Claim C5, as the code has it. A dict that is not empty and has no \<open>timestamp\<close> key
  raises \<open>ValueError\<close>. The empty dict is falsy and goes the way of \<open>False\<close>.
\<close>

theorem unmarshall_activity_missing_timestamp:
  "d \<noteq> [] \<Longrightarrow> \<not> has_key d ''timestamp'' \<Longrightarrow> unmarshall_activity (PDict d) = Inl ValueError"
  by (simp add: truthy_def has_key_def)

theorem unmarshall_activity_missing_timestamp_witness:
  "unmarshall_activity (PDict [(''userRecordName'', PStr ''u'')]) = Inl ValueError"
  by (rule unmarshall_activity_missing_timestamp) (simp_all add: has_key_def)

text \<open>The empty dict has no \<open>timestamp\<close> key and is not a fault.\<close>

theorem unmarshall_activity_empty_dict:
  "unmarshall_activity (PDict [])
     = Inr \<lparr>timestamp = PNone, user_id = PNone, device_id = PNone\<rparr>"
  by code_simp

section \<open>Facts about the building blocks\<close>


lemma bind_Inl_iff: "bind m f = Inl e \<longleftrightarrow> m = Inl e \<or> (\<exists>x. m = Inr x \<and> f x = Inl e)"
  by (cases m) (simp_all add: bind_def)






lemma dict_set_twice: "dict_set (dict_set q k v) k w = dict_set q k w"
  by (simp add: dict_set_def)





lemma snake_share: "to_snake_case ''share'' = ''share''" by code_simp



lemma mapM_Inl: "mapM f xs = Inl e \<Longrightarrow> \<exists>x \<in> set xs. f x = Inl e"
  by (induction xs) (auto split: sum.splits)


section \<open>The pagination loop\<close>

lemma loop_condition_token:
  "loop_condition (dict_set query ''continuationMarker'' tok) \<longleftrightarrow> tok \<noteq> PNone"
  by (simp add: loop_condition_def has_key_def dict_get_def dict_set_def update_conv')

text \<open>The first query of either fetch has no marker, so the loop is entered.\<close>

lemma lists_query_loops: "loop_condition (lists_query zone)"
  by (simp add: loop_condition_def has_key_def lists_query_def)

lemma reminders_payload_loops:
  "loop_condition (get_fetch_reminders_payload zone self include_completed lookup)"
  by (simp add: loop_condition_def has_key_def get_fetch_reminders_payload_def Let_def)

text \<open>A response whose marker is absent or null is the last one the loop asks for.\<close>

lemma query_loop_last:
  assumes "loop_condition query"
    and "map_of d ''records'' = Some (PList recs)"
    and "dict_get d ''continuationMarker'' PNone = PNone"
  shows "query_loop query records sent (PDict d # rest) = Some (Inr (records @ recs, sent @ [query]))"
  using assms
  apply (simp add: getitem_def bind_def py_iter_def get_method_def)
  apply (cases rest)
   apply (simp_all add: loop_condition_token)
  done

text \<open>After any other response the loop goes on with the marker stored in the query.\<close>

lemma query_loop_token:
  assumes "loop_condition query"
    and "map_of d ''records'' = Some (PList recs)"
    and "dict_get d ''continuationMarker'' PNone = tok"
  shows "query_loop query records sent (PDict d # rest)
          = query_loop (dict_set query ''continuationMarker'' tok) (records @ recs) (sent @ [query]) rest"
  using assms
  apply (simp add: getitem_def bind_def py_iter_def get_method_def)
  done

lemma query_loop_pages_aux:
  assumes "list_all2 token_page pre pages"
    and "loop_condition query"
    and "map_of d ''records'' = Some (PList recs)"
    and "dict_get d ''continuationMarker'' PNone = PNone"
  shows "query_loop query records sent (pre @ PDict d # rest)
          = Some (Inr (records @ concat (map fst pages) @ recs,
                       sent @ query # map (\<lambda>p. dict_set query ''continuationMarker'' (snd p)) pages))"
  using assms
proof (induction pre pages arbitrary: query records sent rule: list_all2_induct)
  case Nil
  have "query_loop query records sent (PDict d # rest) = Some (Inr (records @ recs, sent @ [query]))"
    by (rule query_loop_last[OF Nil])
  then show ?case by simp
next
  case (Cons r pre p pages)
  obtain recs1 tok where p: "p = (recs1, tok)" by (cases p)
  from Cons(1) p obtain d1 where d1: "r = PDict d1" "map_of d1 ''records'' = Some (PList recs1)"
      "map_of d1 ''continuationMarker'' = Some tok" "tok \<noteq> PNone"
    by (auto simp: token_page_def)
  have g: "dict_get d1 ''continuationMarker'' PNone = tok" using d1 by (simp add: dict_get_def)
  have lc: "loop_condition (dict_set query ''continuationMarker'' tok)"
    using d1 by (simp add: loop_condition_token)
  have "query_loop query records sent ((r # pre) @ PDict d # rest)
        = query_loop (dict_set query ''continuationMarker'' tok) (records @ recs1) (sent @ [query]) (pre @ PDict d # rest)"
    using query_loop_token[OF Cons(4) d1(2) g] d1(1) by simp
  also have "\<dots> = Some (Inr ((records @ recs1) @ concat (map fst pages) @ recs,
                       (sent @ [query]) @ dict_set query ''continuationMarker'' tok
                          # map (\<lambda>p. dict_set (dict_set query ''continuationMarker'' tok) ''continuationMarker'' (snd p)) pages))"
    by (rule Cons(3)[OF lc Cons(5) Cons(6)])
  finally show ?case using p by (simp add: dict_set_twice)
qed

text \<open>
  Claim C1, as the code has it. The loop is entered with a query that has no marker (or a
  marker that is not \<open>None\<close>). Every response with a marker that is present and not \<open>None\<close>
  is followed by a further request, which is the query with that marker merged in; the
  first response whose marker is \<open>None\<close> or absent (\<open>response.get\<close> reads an absent marker
  as \<open>None\<close>) ends the loop. The requests are one more than the token responses, and the
  records are those of all responses read, in order.
\<close>

theorem query_loop_pages:
  assumes "loop_condition query"
    and "list_all2 token_page pre pages"
    and "map_of d ''records'' = Some (PList recs)"
    and "dict_get d ''continuationMarker'' PNone = PNone"
  shows "query_loop query [] [] (pre @ PDict d # rest)
          = Some (Inr (concat (map fst pages) @ recs,
                       query # map (\<lambda>p. dict_set query ''continuationMarker'' (snd p)) pages))"
  using query_loop_pages_aux[OF assms(2) assms(1) assms(3) assms(4), of "[]" "[]" rest]
  by simp

theorem query_loop_pages_witness:
  "query_loop (lists_query sample_zone) [] []
     [PDict [(''records'', PList [PStr ''r1'']), (''continuationMarker'', PStr ''tok1'')],
      PDict [(''records'', PList [PStr ''r2'']), (''continuationMarker'', PStr ''tok2'')],
      PDict [(''records'', PList [PStr ''r3'']), (''continuationMarker'', PNone)]]
   = Some (Inr ([PStr ''r1'', PStr ''r2'', PStr ''r3''],
                [lists_query sample_zone,
                 dict_set (lists_query sample_zone) ''continuationMarker'' (PStr ''tok1''),
                 dict_set (lists_query sample_zone) ''continuationMarker'' (PStr ''tok2'')]))"
  using query_loop_pages[of "lists_query sample_zone"
      "[PDict [(''records'', PList [PStr ''r1'']), (''continuationMarker'', PStr ''tok1'')],
        PDict [(''records'', PList [PStr ''r2'']), (''continuationMarker'', PStr ''tok2'')]]"
      "[([PStr ''r1''], PStr ''tok1''), ([PStr ''r2''], PStr ''tok2'')]"
      "[(''records'', PList [PStr ''r3'']), (''continuationMarker'', PNone)]" "[PStr ''r3'']" "[]"]
  by (simp add: token_page_def dict_get_def lists_query_loops)

text \<open>
  The three responses of the claim, with the markers absent, \<open>"tok1"\<close> and null: one request
  is posted, and the result has the records of the first response only.
\<close>

theorem query_loop_absent_marker_stops:
  "query_loop (lists_query sample_zone) [] []
     [PDict [(''records'', PList [PStr ''r1''])],
      PDict [(''records'', PList [PStr ''r2'']), (''continuationMarker'', PStr ''tok1'')],
      PDict [(''records'', PList [PStr ''r3'']), (''continuationMarker'', PNone)]]
   = Some (Inr ([PStr ''r1''], [lists_query sample_zone]))"
  by code_simp

section \<open>The primary zone\<close>

lemma ZoneIDObject_from_record_fault:
  "ZoneIDObject_from_record r = Inl e \<Longrightarrow> \<exists>m. e = PyiCloudAPIResponseException m"
  by (auto simp: ZoneIDObject_from_record_def split: pyval.splits if_splits)

lemma ZoneObject_from_record_fault:
  "ZoneObject_from_record r = Inl e \<Longrightarrow> \<exists>m. e = PyiCloudAPIResponseException m"
  by (auto simp: ZoneObject_from_record_def bind_Inl_iff split: pyval.splits if_splits
      dest: ZoneIDObject_from_record_fault)

lemma fetch_zones_fault:
  "fetch_zones resp = Inl e \<Longrightarrow>
     e = AttributeError \<or> e = TypeError \<or> (\<exists>m. e = PyiCloudAPIResponseException m)"
  by (auto simp: fetch_zones_def bind_Inl_iff get_method_def py_iter_def split: pyval.splits
      dest!: mapM_Inl ZoneObject_from_record_fault)

text \<open>The faults the initialisation can raise: the provisioning fault is not among them.\<close>

lemma RemindersService_init_fault:
  "RemindersService_init resp = Inl e \<Longrightarrow>
     e = AttributeError \<or> e = TypeError \<or> (\<exists>m. e = PyiCloudAPIResponseException m)
     \<or> (\<exists>k. e = KeyError k)"
  by (auto simp: RemindersService_init_def ZonesContainer_getitem_def ZonesContainer_records_def
      ZoneObject_truthy_def bind_Inl_iff split: option.splits dest!: fetch_zones_fault)

text \<open>
  Claim C2, on the code. A zones response without a zone named \<open>Reminders\<close> (here the
  empty list of zones) makes the initialisation raise the \<open>KeyError\<close> of
  \<open>ZonesContainer.__getitem__\<close>; \<open>PyiCloudServiceNotActivatedException\<close> is raised for no
  response at all, since the test \<open>not zone\<close> that guards it is never true.
\<close>

theorem RemindersService_init_missing_zone:
  "RemindersService_init (PDict [(''zones'', PList [])])
     = Inl (KeyError (PStr ''Zone 'Reminders' not found.''))
   \<and> (\<forall>zones_response m.
         RemindersService_init zones_response \<noteq> Inl (PyiCloudServiceNotActivatedException m))"
proof
  show "RemindersService_init (PDict [(''zones'', PList [])])
     = Inl (KeyError (PStr ''Zone 'Reminders' not found.''))"
    by code_simp
next
  show "\<forall>zones_response m.
         RemindersService_init zones_response \<noteq> Inl (PyiCloudServiceNotActivatedException m)"
    using RemindersService_init_fault by blast
qed

theorem RemindersService_init_missing_zone_witness:
  "RemindersService_init (PDict [(''zones'', PList [])])
     = Inl (KeyError (PStr ''Zone 'Reminders' not found.''))"
  by (rule RemindersService_init_missing_zone[THEN conjunct1])

section \<open>The sorting style\<close>

text \<open>
  Claim C3, on the code. A list record whose field \<open>SortingStyle\<close> has the wire value
  \<open>title_asc\<close> is unmarshalled with \<open>fields["sorting_style"]\<close> the one-element tuple
  \<open>(MANUAL,)\<close>: the wire fields are read under the canonical name, which is not among their
  keys, so the default \<open>"manual"\<close> is parsed, and the result is wrapped in a tuple.
\<close>

theorem unmarshall_sorting_style_tuple:
  "bind (unmarshall L
          (sample_record ''L1'' ''Groceries''
             [(''SortingStyle'', PDict [(''type'', PStr ''STRING''), (''value'', PStr ''title_asc'')])]
           @ [sample_zoneID]))
     (\<lambda>(data, logs). bind (getitem (PDict data) ''fields'') (\<lambda>flds. getitem flds ''sorting_style''))
   = Inr (PTuple [PEnum MANUAL])"
  by code_simp

theorem unmarshall_sorting_style_tuple_witness:
  "bind (unmarshall sample_stdlib
          (sample_record ''L1'' ''Groceries''
             [(''SortingStyle'', PDict [(''type'', PStr ''STRING''), (''value'', PStr ''title_asc'')])]
           @ [sample_zoneID]))
     (\<lambda>(data, logs). bind (getitem (PDict data) ''fields'') (\<lambda>flds. getitem flds ''sorting_style''))
   = Inr (PTuple [PEnum MANUAL])"
  by (rule unmarshall_sorting_style_tuple)

text \<open>The list made from that record has the tuple as its \<open>sorting_style\<close>.\<close>

lemma from_record_sorting_style_example:
  "bind (from_record L
          (PDict (sample_record ''L1'' ''Groceries''
             [(''SortingStyle'', PDict [(''type'', PStr ''STRING''), (''value'', PStr ''title_asc'')])]
           @ [sample_zoneID])))
     (\<lambda>(l, logs). getitem (PDict (attrs l)) ''sorting_style'')
   = Inr (PTuple [PEnum MANUAL])"
  by code_simp

text \<open>The smallest record with the field, in full.\<close>

lemma unmarshall_sorting_style_minimal:
  "unmarshall L
     [(''fields'',
       PDict [(''SortingStyle'', PDict [(''type'', PStr ''STRING''), (''value'', PStr ''title_asc'')])])]
   = Inr ([(''fields'',
            PDict [(''sorting_style'', PTuple [PEnum MANUAL]), (''name'', PStr ''Unknown'')])],
          [NameMissingOrEmpty (PStr ''unknown'')])"
  by code_simp

text \<open>With the wire name \<open>sorting_style\<close> itself the field's envelope is parsed, which raises.\<close>

lemma unmarshall_sorting_style_literal:
  "unmarshall L
     [(''fields'',
       PDict [(''sorting_style'', PDict [(''type'', PStr ''STRING''), (''value'', PStr ''title_asc'')])])]
   = Inl ValueError"
  by code_simp

section \<open>Unknown wire types\<close>



text \<open>A whole record with such a field is unmarshalled, with the diagnostic.\<close>

lemma unmarshall_unknown_type_example:
  "unmarshall L
     [(''recordName'', PStr ''L1''),
      (''fields'', PDict [(''Badge'', PDict [(''type'', PStr ''REFERENCE''), (''value'', PStr ''x'')])])]
   = Inr ([(''record_id'', PStr ''L1''),
           (''fields'',
            PDict [(''badge'', PDict [(''type'', PStr ''REFERENCE''), (''value'', PStr ''x'')]),
                   (''name'', PStr ''Unknown'')])],
          [UnknownFieldType (PStr ''REFERENCE'') ''badge'' (PStr ''L1''),
           NameMissingOrEmpty (PStr ''L1'')])"
  by code_simp

section \<open>The lists container\<close>





text \<open>
  A whole fetch: one response with two list records of the display name \<open>Groceries\<close> and
  the record names \<open>L1\<close> and \<open>L2\<close>. The container has one entry, the second list, under
  \<open>Groceries\<close>; neither record name is a key.
\<close>

lemma fetch_lists_example:
  "map_option (map_sum id (\<lambda>(lsts, sent, logs). map (\<lambda>(k, l). (k, list_id l)) lsts))
     (fetch_lists sample_stdlib sample_zone
        [PDict [(''records'',
                 PList [PDict (sample_record ''L1'' ''Groceries'' [] @ [sample_zoneID]),
                        PDict (sample_record ''L2'' ''Groceries'' [] @ [sample_zoneID])])]])
   = Some (Inr [(PStr ''Groceries'', PStr ''L2'')])"
  by code_simp

lemma get_by_id_example:
  "map_option (map_sum id (list_id \<circ> fst))
     (get_by_id sample_stdlib sample_zone \<lparr>list_records = []\<rparr>
        [PDict [(''records'',
                 PList [PDict (sample_record ''L1'' ''Groceries'' [] @ [sample_zoneID]),
                        PDict (sample_record ''L2'' ''Groceries'' [] @ [sample_zoneID])])]]
        (PStr ''L1''))
   = Some (Inl (KeyError (PStr ''L1'')))"
  by code_simp

section \<open>What \<open>from_record\<close> needs of a record\<close>

















section \<open>The choice of the class\<close>










end
